theory Spec2Isabelle
  imports Main
begin

section \<open>The comparative study of Hier\_Clust.ipynb\<close>

text \<open>
  The only clustering logic the repository itself contains is the cell "Comparative Study"
  of the notebook:
  \<^verbatim>\<open>
  linkage_methods = ['single','complete','average','ward']
  distance_metrics = ['euclidean','cityblock', 'cosine']  # cityblock is Manhattan
  results = []

  for method in linkage_methods:
      for metric in distance_metrics:
          # Ward linkage isn't compatible with metrics other than Euclidean.
          # So if method='ward', skip if metric!='euclidean'
          if method == 'ward' and metric != 'euclidean':
              continue

          Z = linkage(X_scaled, method=method, metric=metric)
          # We'll pick the same cluster count (5) for consistency.
          labels = fcluster(Z, t=5, criterion='maxclust')
          score = silhouette_score(X_scaled, labels, metric=metric)
          results.append((method, metric, score))
  \<close>
  \<open>linkage\<close> and \<open>fcluster\<close> are imported from \<open>scipy.cluster.hierarchy\<close> and
  \<open>silhouette_score\<close> from \<open>sklearn.metrics\<close>. Their code is not part of the
  repository, so the model takes the three routines as parameters. Each of them may raise
  a Python exception, hence each returns a sum: \<open>Inl\<close> the exception, \<open>Inr\<close> the value.
  The types of the feature matrix \<open>'x\<close>, of the linkage matrix \<open>'z\<close>, of the label
  array \<open>'l\<close>, of the score \<open>'s\<close> and of the exceptions \<open>'e\<close> are left open.
\<close>

subsection \<open>The imported routines\<close>

record ('x, 'z, 'l, 's, 'e) library =
  linkage :: "'x \<Rightarrow> string \<Rightarrow> string \<Rightarrow> 'e + 'z"
  fcluster :: "'z \<Rightarrow> int \<Rightarrow> string \<Rightarrow> 'e + 'l"
  silhouette_score :: "'x \<Rightarrow> 'l \<Rightarrow> string \<Rightarrow> 'e + 's"

subsection \<open>The grid\<close>

definition linkage_methods :: "string list" where
  "linkage_methods = [''single'', ''complete'', ''average'', ''ward'']"

definition distance_metrics :: "string list" where
  "distance_metrics = [''euclidean'', ''cityblock'', ''cosine'']"

text \<open>One element of \<open>results\<close>: the tuple \<open>(method, metric, score)\<close>.\<close>

type_synonym 's row = "string \<times> string \<times> 's"

text \<open>
  What is left of a run of the cell: the exception that ended it, if any, and the value of
  the notebook global \<open>results\<close> at that moment.
\<close>

type_synonym ('s, 'e) outcome = "'e option \<times> 's row list"

subsection \<open>The loop body\<close>

text \<open>
  The four statements after the \<open>continue\<close> test, up to the tuple that is appended. An
  exception raised by one call leaves the body at once: the later calls are not made.
\<close>

definition evaluate ::
  "('x, 'z, 'l, 's, 'e) library \<Rightarrow> 'x \<Rightarrow> string \<Rightarrow> string \<Rightarrow> 'e + 's row" where
  "evaluate L X_scaled method metric =
     (case linkage L X_scaled method metric of
        Inl e \<Rightarrow> Inl e
      | Inr Z \<Rightarrow>
          (case fcluster L Z 5 ''maxclust'' of
             Inl e \<Rightarrow> Inl e
           | Inr labels \<Rightarrow>
               (case silhouette_score L X_scaled labels metric of
                  Inl e \<Rightarrow> Inl e
                | Inr score \<Rightarrow> Inr (method, metric, score))))"

subsection \<open>The two loops\<close>

text \<open>
  \<open>for metric in distance_metrics\<close>, for one \<open>method\<close>. There is no \<open>try\<close> in the
  cell, so an exception of the body ends the loop with \<open>results\<close> as it then is.
\<close>

fun inner_loop ::
  "('x, 'z, 'l, 's, 'e) library \<Rightarrow> 'x \<Rightarrow> string \<Rightarrow> string list \<Rightarrow> 's row list
     \<Rightarrow> ('s, 'e) outcome" where
  "inner_loop L X_scaled method [] results = (None, results)"
| "inner_loop L X_scaled method (metric # metrics) results =
     (if method = ''ward'' \<and> metric \<noteq> ''euclidean''
      then inner_loop L X_scaled method metrics results
      else (case evaluate L X_scaled method metric of
              Inl e \<Rightarrow> (Some e, results)
            | Inr r \<Rightarrow> inner_loop L X_scaled method metrics (results @ [r])))"

text \<open>
  \<open>for method in linkage_methods\<close>. An exception that leaves the inner loop leaves the
  outer loop too.
\<close>

fun outer_loop ::
  "('x, 'z, 'l, 's, 'e) library \<Rightarrow> 'x \<Rightarrow> string list \<Rightarrow> string list \<Rightarrow> 's row list
     \<Rightarrow> ('s, 'e) outcome" where
  "outer_loop L X_scaled [] metrics results = (None, results)"
| "outer_loop L X_scaled (method # methods) metrics results =
     (case inner_loop L X_scaled method metrics results of
        (Some e, results') \<Rightarrow> (Some e, results')
      | (None, results') \<Rightarrow> outer_loop L X_scaled methods metrics results')"

text \<open>The cell: \<open>results = []\<close>, then the loops over the two lists of the notebook.\<close>

definition comparative_study ::
  "('x, 'z, 'l, 's, 'e) library \<Rightarrow> 'x \<Rightarrow> ('s, 'e) outcome" where
  "comparative_study L X_scaled = outer_loop L X_scaled linkage_methods distance_metrics []"

subsection \<open>Vocabulary of the statements\<close>

text \<open>The configuration of a row: its method and its metric.\<close>

definition config :: "'s row \<Rightarrow> string \<times> string" where
  "config r = (fst r, fst (snd r))"

text \<open>The test before \<open>continue\<close>, on a pair.\<close>

definition skipped :: "string \<times> string \<Rightarrow> bool" where
  "skipped c = (fst c = ''ward'' \<and> snd c \<noteq> ''euclidean'')"

text \<open>
  The iteration order of the two loops, methods outer and metrics inner, as a list of
  pairs.
\<close>

definition grid :: "string list \<Rightarrow> string list \<Rightarrow> (string \<times> string) list" where
  "grid methods metrics = concat (map (\<lambda>method. map (Pair method) metrics) methods)"

text \<open>The pairs of the grid that the loop does not skip, in iteration order.\<close>

definition evaluated_pairs :: "string list \<Rightarrow> string list \<Rightarrow> (string \<times> string) list" where
  "evaluated_pairs methods metrics = filter (\<lambda>c. \<not> skipped c) (grid methods metrics)"

text \<open>
  The runner as section 4.5 of the specification describes it, on a list of pairs that are
  all to be evaluated: each pair is run through the body and its row appended. As in the
  loops of the cell, the first exception ends the run.
\<close>

fun run_pairs ::
  "('x, 'z, 'l, 's, 'e) library \<Rightarrow> 'x \<Rightarrow> (string \<times> string) list \<Rightarrow> 's row list
     \<Rightarrow> ('s, 'e) outcome" where
  "run_pairs L X_scaled [] results = (None, results)"
| "run_pairs L X_scaled (c # cs) results =
     (case evaluate L X_scaled (fst c) (snd c) of
        Inl e \<Rightarrow> (Some e, results)
      | Inr r \<Rightarrow> run_pairs L X_scaled cs (results @ [r]))"

subsection \<open>Two libraries for concrete runs\<close>

text \<open>
  A library over toy types: the feature matrix is a list of integers (observations of
  one feature), the linkage matrix remembers method and metric, the labels remember the
  linkage matrix and the cut, and the score is the pair of the metric scored under and the
  labels. Its \<open>linkage\<close> raises when asked for Ward's method under a metric other than
  the Euclidean one, and nowhere else.
\<close>

definition toy_library ::
  "(int list, string \<times> string, (string \<times> string) \<times> int, string \<times> (string \<times> string) \<times> int,
    string) library" where
  "toy_library =
     \<lparr> linkage = (\<lambda>X method metric.
         if method = ''ward'' \<and> metric \<noteq> ''euclidean'' then Inl ''ValueError''
         else Inr (method, metric)),
       fcluster = (\<lambda>Z t criterion. Inr (Z, t)),
       silhouette_score = (\<lambda>X labels metric. Inr (metric, labels)) \<rparr>"

text \<open>
  The same library, except that \<open>linkage\<close> also raises under the cosine metric when the
  feature matrix holds a zero observation.
\<close>

definition zero_vector_library ::
  "(int list, string \<times> string, (string \<times> string) \<times> int, string \<times> (string \<times> string) \<times> int,
    string) library" where
  "zero_vector_library =
     \<lparr> linkage = (\<lambda>X method metric.
         if method = ''ward'' \<and> metric \<noteq> ''euclidean'' then Inl ''ValueError''
         else if metric = ''cosine'' \<and> 0 \<in> set X then Inl ''ValueError''
         else Inr (method, metric)),
       fcluster = (\<lambda>Z t criterion. Inr (Z, t)),
       silhouette_score = (\<lambda>X labels metric. Inr (metric, labels)) \<rparr>"

section \<open>Lemmas on the loops\<close>

lemma evaluate_row:
  "evaluate L X m d = Inr r \<Longrightarrow> config r = (m, d)"
  by (auto simp: evaluate_def config_def split: sum.splits)

lemma inner_loop_run_pairs:
  "inner_loop L X m ds rs = run_pairs L X (filter (\<lambda>c. \<not> skipped c) (map (Pair m) ds)) rs"
  by (induction ds arbitrary: rs) (auto simp: skipped_def split: sum.splits)

lemma run_pairs_append:
  "run_pairs L X (as @ bs) rs =
     (case run_pairs L X as rs of
        (Some e, rs') \<Rightarrow> (Some e, rs')
      | (None, rs') \<Rightarrow> run_pairs L X bs rs')"
  by (induction as arbitrary: rs) (auto split: sum.splits)

lemma outer_loop_run_pairs:
  "outer_loop L X ms ds rs = run_pairs L X (evaluated_pairs ms ds) rs"
  by (induction ms arbitrary: rs)
     (auto simp: evaluated_pairs_def grid_def inner_loop_run_pairs run_pairs_append
           split: prod.splits option.splits)

lemma run_pairs_result:
  "run_pairs L X cs rs = (exc, out) \<Longrightarrow>
     \<exists>new. out = rs @ new
       \<and> map config new = take (length new) cs
       \<and> (\<forall>r \<in> set new. evaluate L X (fst (config r)) (snd (config r)) = Inr r)
       \<and> (exc = None \<longrightarrow> length new = length cs)
       \<and> (\<forall>e. exc = Some e \<longrightarrow>
             length new < length cs
             \<and> evaluate L X (fst (cs ! length new)) (snd (cs ! length new)) = Inl e)"
proof (induction cs arbitrary: rs)
  case Nil
  then show ?case by auto
next
  case (Cons c cs)
  show ?case
  proof (cases "evaluate L X (fst c) (snd c)")
    case (Inl e)
    with Cons.prems have "exc = Some e" "out = rs" by auto
    with Inl show ?thesis by auto
  next
    case (Inr r)
    with Cons.prems have "run_pairs L X cs (rs @ [r]) = (exc, out)" by simp
    from Cons.IH [OF this] obtain new where new:
      "out = (rs @ [r]) @ new"
      "map config new = take (length new) cs"
      "\<forall>r \<in> set new. evaluate L X (fst (config r)) (snd (config r)) = Inr r"
      "exc = None \<longrightarrow> length new = length cs"
      "\<forall>e. exc = Some e \<longrightarrow>
             length new < length cs
             \<and> evaluate L X (fst (cs ! length new)) (snd (cs ! length new)) = Inl e"
      by blast
    have cr: "config r = c" using evaluate_row [OF Inr] by simp
    have "out = rs @ (r # new)" using new(1) by simp
    moreover have "map config (r # new) = take (length (r # new)) (c # cs)"
      using new(2) cr by simp
    moreover have "\<forall>q \<in> set (r # new). evaluate L X (fst (config q)) (snd (config q)) = Inr q"
      using new(3) cr Inr by simp
    moreover have "exc = None \<longrightarrow> length (r # new) = length (c # cs)"
      using new(4) by simp
    moreover have "\<forall>e. exc = Some e \<longrightarrow>
             length (r # new) < length (c # cs)
             \<and> evaluate L X (fst ((c # cs) ! length (r # new))) (snd ((c # cs) ! length (r # new))) = Inl e"
      using new(5) by simp
    ultimately show ?thesis by blast
  qed
qed

lemma run_pairs_all_ok:
  "\<forall>c \<in> set cs. \<forall>e. evaluate L X (fst c) (snd c) \<noteq> Inl e \<Longrightarrow>
     fst (run_pairs L X cs rs) = None"
proof (induction cs arbitrary: rs)
  case Nil
  then show ?case by simp
next
  case (Cons c cs)
  then show ?case by (cases "evaluate L X (fst c) (snd c)") auto
qed

lemma run_pairs_cong:
  "\<forall>c \<in> set cs. evaluate L' X (fst c) (snd c) = evaluate L X (fst c) (snd c) \<Longrightarrow>
     run_pairs L' X cs rs = run_pairs L X cs rs"
  by (induction cs arbitrary: rs) (auto split: sum.splits)

lemma run_pairs_first_exception:
  "i < length cs \<Longrightarrow> evaluate L X (fst (cs ! i)) (snd (cs ! i)) = Inl e \<Longrightarrow>
   \<forall>j < i. \<forall>e'. evaluate L X (fst (cs ! j)) (snd (cs ! j)) \<noteq> Inl e' \<Longrightarrow>
     \<exists>new. run_pairs L X cs rs = (Some e, rs @ new) \<and> map config new = take i cs"
proof (induction cs arbitrary: rs i)
  case Nil
  then show ?case by simp
next
  case (Cons c cs)
  show ?case
  proof (cases i)
    case 0
    with Cons.prems show ?thesis by simp
  next
    case (Suc k)
    with Cons.prems(3) obtain r where r: "evaluate L X (fst c) (snd c) = Inr r"
      by (cases "evaluate L X (fst c) (snd c)") auto
    have k: "k < length cs" using Cons.prems(1) Suc by simp
    have ek: "evaluate L X (fst (cs ! k)) (snd (cs ! k)) = Inl e"
      using Cons.prems(2) Suc by simp
    have before: "\<forall>j < k. \<forall>e'. evaluate L X (fst (cs ! j)) (snd (cs ! j)) \<noteq> Inl e'"
      using Cons.prems(3) Suc by auto
    from Cons.IH [OF k ek before, of "rs @ [r]"] obtain new where
      "run_pairs L X cs (rs @ [r]) = (Some e, (rs @ [r]) @ new)" "map config new = take k cs"
      by blast
    then have "run_pairs L X (c # cs) rs = (Some e, rs @ (r # new))"
      "map config (r # new) = take i (c # cs)"
      using r Suc evaluate_row [OF r] by simp_all
    then show ?thesis by blast
  qed
qed

section \<open>The claims on the comparative study\<close>

text \<open>
  Claim C10. Every row that the comparative study appends carries a score computed under
  the metric of its own linkage: for a row \<open>(method, metric, score)\<close> of \<open>results\<close>
  there are a linkage matrix \<open>Z\<close> built by \<open>linkage\<close> for that method under that metric
  and labels cut from \<open>Z\<close> at five clusters, and \<open>score\<close> is what \<open>silhouette_score\<close>
  returns for these labels under the same metric. This holds for any two lists of methods
  and metrics, and whether the run ends normally or with an exception.
\<close>

theorem score_metric_is_linkage_metric:
  assumes "outer_loop L X methods metrics [] = (exc, rows)"
    and "(method, metric, score) \<in> set rows"
  shows "\<exists>Z labels. linkage L X method metric = Inr Z
           \<and> fcluster L Z 5 ''maxclust'' = Inr labels
           \<and> silhouette_score L X labels metric = Inr score"
proof -
  from assms(1) have "run_pairs L X (evaluated_pairs methods metrics) [] = (exc, rows)"
    by (simp add: outer_loop_run_pairs)
  from run_pairs_result [OF this] assms(2)
  have "evaluate L X method metric = Inr (method, metric, score)"
    by (auto simp: config_def)
  then show ?thesis
    by (auto simp: evaluate_def split: sum.splits)
qed

theorem score_metric_is_linkage_metric_witness:
  "linkage toy_library [0, 1, 2, 10, 11, 12] ''average'' ''cosine'' = Inr (''average'', ''cosine'')
   \<and> fcluster toy_library (''average'', ''cosine'') 5 ''maxclust'' = Inr ((''average'', ''cosine''), 5)
   \<and> silhouette_score toy_library [0, 1, 2, 10, 11, 12] ((''average'', ''cosine''), 5) ''cosine''
       = Inr (''cosine'', (''average'', ''cosine''), 5)"
proof -
  let ?rows = "snd (comparative_study toy_library [0, 1, 2, 10, 11, 12])"
  have run: "outer_loop toy_library [0, 1, 2, 10, 11, 12] linkage_methods distance_metrics []
               = (None, ?rows)"
    by (simp add: comparative_study_def linkage_methods_def distance_metrics_def
          evaluate_def toy_library_def)
  have row: "(''average'', ''cosine'', ''cosine'', (''average'', ''cosine''), 5) \<in> set ?rows"
    by (simp add: comparative_study_def linkage_methods_def distance_metrics_def
          evaluate_def toy_library_def)
  from score_metric_is_linkage_metric [OF run row] show ?thesis
    by (simp add: toy_library_def)
qed

text \<open>
  Claim C9. The rows of \<open>results\<close> follow the iteration order, methods in the outer
  loop and metrics in the inner loop: the configurations of the rows are an initial
  segment of the non-skipped pairs of the grid in that order; when the run ends without an
  exception they are all of them, one row for each non-skipped pair and nothing else; and
  every row is the tuple (method, metric, score) that the loop body computes for its
  configuration.
\<close>

theorem results_in_iteration_order:
  assumes "outer_loop L X methods metrics [] = (exc, rows)"
  shows "map config rows = take (length rows) (evaluated_pairs methods metrics)
       \<and> (exc = None \<longrightarrow> map config rows = evaluated_pairs methods metrics)
       \<and> (\<forall>r \<in> set rows. evaluate L X (fst (config r)) (snd (config r)) = Inr r)"
proof -
  from assms have "run_pairs L X (evaluated_pairs methods metrics) [] = (exc, rows)"
    by (simp add: outer_loop_run_pairs)
  from run_pairs_result [OF this] obtain new where new:
    "rows = [] @ new"
    "map config new = take (length new) (evaluated_pairs methods metrics)"
    "\<forall>r \<in> set new. evaluate L X (fst (config r)) (snd (config r)) = Inr r"
    "exc = None \<longrightarrow> length new = length (evaluated_pairs methods metrics)"
    by blast
  from new(1) have eq: "new = rows" by simp
  have "exc = None \<longrightarrow> map config rows = evaluated_pairs methods metrics"
    using new(2,4) unfolding eq by simp
  with new(2,3) show ?thesis unfolding eq by blast
qed

theorem results_in_iteration_order_witness:
  "comparative_study toy_library [0, 1, 2, 10, 11, 12] =
     (None,
      [(''single'', ''euclidean'', ''euclidean'', (''single'', ''euclidean''), 5),
       (''single'', ''cityblock'', ''cityblock'', (''single'', ''cityblock''), 5),
       (''single'', ''cosine'', ''cosine'', (''single'', ''cosine''), 5),
       (''complete'', ''euclidean'', ''euclidean'', (''complete'', ''euclidean''), 5),
       (''complete'', ''cityblock'', ''cityblock'', (''complete'', ''cityblock''), 5),
       (''complete'', ''cosine'', ''cosine'', (''complete'', ''cosine''), 5),
       (''average'', ''euclidean'', ''euclidean'', (''average'', ''euclidean''), 5),
       (''average'', ''cityblock'', ''cityblock'', (''average'', ''cityblock''), 5),
       (''average'', ''cosine'', ''cosine'', (''average'', ''cosine''), 5),
       (''ward'', ''euclidean'', ''euclidean'', (''ward'', ''euclidean''), 5)])
   \<and> map config (snd (comparative_study toy_library [0, 1, 2, 10, 11, 12])) =
       [(''single'', ''euclidean''), (''single'', ''cityblock''), (''single'', ''cosine''),
        (''complete'', ''euclidean''), (''complete'', ''cityblock''), (''complete'', ''cosine''),
        (''average'', ''euclidean''), (''average'', ''cityblock''), (''average'', ''cosine''),
        (''ward'', ''euclidean'')]"
proof -
  let ?X = "[0, 1, 2, 10, 11, 12] :: int list"
  let ?rows = "snd (comparative_study toy_library ?X)"
  have study: "comparative_study toy_library ?X =
     (None,
      [(''single'', ''euclidean'', ''euclidean'', (''single'', ''euclidean''), 5),
       (''single'', ''cityblock'', ''cityblock'', (''single'', ''cityblock''), 5),
       (''single'', ''cosine'', ''cosine'', (''single'', ''cosine''), 5),
       (''complete'', ''euclidean'', ''euclidean'', (''complete'', ''euclidean''), 5),
       (''complete'', ''cityblock'', ''cityblock'', (''complete'', ''cityblock''), 5),
       (''complete'', ''cosine'', ''cosine'', (''complete'', ''cosine''), 5),
       (''average'', ''euclidean'', ''euclidean'', (''average'', ''euclidean''), 5),
       (''average'', ''cityblock'', ''cityblock'', (''average'', ''cityblock''), 5),
       (''average'', ''cosine'', ''cosine'', (''average'', ''cosine''), 5),
       (''ward'', ''euclidean'', ''euclidean'', (''ward'', ''euclidean''), 5)])"
    by (simp add: comparative_study_def linkage_methods_def distance_metrics_def
          evaluate_def toy_library_def)
  then have run: "outer_loop toy_library ?X linkage_methods distance_metrics [] = (None, ?rows)"
    by (simp add: comparative_study_def)
  have pairs: "evaluated_pairs linkage_methods distance_metrics =
       [(''single'', ''euclidean''), (''single'', ''cityblock''), (''single'', ''cosine''),
        (''complete'', ''euclidean''), (''complete'', ''cityblock''), (''complete'', ''cosine''),
        (''average'', ''euclidean''), (''average'', ''cityblock''), (''average'', ''cosine''),
        (''ward'', ''euclidean'')]"
    by (simp add: evaluated_pairs_def grid_def skipped_def linkage_methods_def
          distance_metrics_def)
  from results_in_iteration_order [OF run]
  have "map config ?rows = evaluated_pairs linkage_methods distance_metrics"
    by blast
  with study pairs show ?thesis by simp
qed

text \<open>
  Claim C3. A pair with method \<open>ward\<close> and a metric other than \<open>euclidean\<close> is
  skipped silently, for any two lists of methods and metrics and any library routines.
  Four facts make this precise. No row of \<open>results\<close> has the configuration of the
  pair. The run does not depend on what the routines would do on the pair: a library that
  agrees with the given one on every other pair, and may raise on this one, leaves the same
  exception (or none) and the same rows, so no error is raised or reported for the pair.
  The loops carry on after the skip: the run is the run of the body over the pairs of the
  grid that are not skipped, in iteration order. And when none of these other pairs
  raises, the run ends normally with one row for each of them.
\<close>

theorem ward_non_euclidean_skipped:
  fixes L :: "('x, 'z, 'l, 's, 'e) library"
  assumes "method = ''ward''" and "metric \<noteq> ''euclidean''"
    and "outer_loop L X methods metrics [] = (exc, rows)"
  shows "(method, metric) \<notin> set (map config rows)
       \<and> (\<forall>L' :: ('x, 'z, 'l, 's, 'e) library.
             (\<forall>m d. (m, d) \<noteq> (method, metric) \<longrightarrow> evaluate L' X m d = evaluate L X m d)
             \<longrightarrow> outer_loop L' X methods metrics [] = (exc, rows))
       \<and> outer_loop L X methods metrics [] =
           run_pairs L X (filter (\<lambda>c. \<not> skipped c) (grid methods metrics)) []
       \<and> ((\<forall>c \<in> set (grid methods metrics).
              \<not> skipped c \<longrightarrow> (\<forall>e. evaluate L X (fst c) (snd c) \<noteq> Inl e))
            \<longrightarrow> exc = None \<and> map config rows = filter (\<lambda>c. \<not> skipped c) (grid methods metrics))"
proof -
  let ?cs = "filter (\<lambda>c. \<not> skipped c) (grid methods metrics)"
  have flat: "\<And>K :: ('x, 'z, 'l, 's, 'e) library.
                outer_loop K X methods metrics [] = run_pairs K X ?cs []"
    by (simp add: outer_loop_run_pairs evaluated_pairs_def)
  have skip: "skipped (method, metric)"
    using assms(1,2) by (simp add: skipped_def)
  have run: "run_pairs L X ?cs [] = (exc, rows)"
    using assms(3) flat by simp
  from run_pairs_result [OF run] obtain new where new:
    "rows = [] @ new" "map config new = take (length new) ?cs"
    "exc = None \<longrightarrow> length new = length ?cs"
    by blast
  from new(1) have eq: "new = rows" by simp
  have "set (map config rows) \<subseteq> set ?cs"
    using new(2) set_take_subset [of "length new" ?cs] unfolding eq by simp
  then have no_row: "(method, metric) \<notin> set (map config rows)"
    using skip by auto
  have indep: "\<forall>L' :: ('x, 'z, 'l, 's, 'e) library.
             (\<forall>m d. (m, d) \<noteq> (method, metric) \<longrightarrow> evaluate L' X m d = evaluate L X m d)
             \<longrightarrow> outer_loop L' X methods metrics [] = (exc, rows)"
  proof (intro allI impI)
    fix L' :: "('x, 'z, 'l, 's, 'e) library"
    assume agree: "\<forall>m d. (m, d) \<noteq> (method, metric) \<longrightarrow> evaluate L' X m d = evaluate L X m d"
    have "\<forall>c \<in> set ?cs. evaluate L' X (fst c) (snd c) = evaluate L X (fst c) (snd c)"
    proof
      fix c assume "c \<in> set ?cs"
      then have "\<not> skipped c" by simp
      with skip have "(fst c, snd c) \<noteq> (method, metric)" by auto
      with agree show "evaluate L' X (fst c) (snd c) = evaluate L X (fst c) (snd c)" by blast
    qed
    from run_pairs_cong [OF this] run flat
    show "outer_loop L' X methods metrics [] = (exc, rows)" by simp
  qed
  have complete: "(\<forall>c \<in> set (grid methods metrics).
              \<not> skipped c \<longrightarrow> (\<forall>e. evaluate L X (fst c) (snd c) \<noteq> Inl e))
            \<longrightarrow> exc = None \<and> map config rows = ?cs"
  proof
    assume ok: "\<forall>c \<in> set (grid methods metrics).
              \<not> skipped c \<longrightarrow> (\<forall>e. evaluate L X (fst c) (snd c) \<noteq> Inl e)"
    then have "\<forall>c \<in> set ?cs. \<forall>e. evaluate L X (fst c) (snd c) \<noteq> Inl e" by simp
    from run_pairs_all_ok [OF this, of "[]"] run have "exc = None" by simp
    with new(2,3) show "exc = None \<and> map config rows = ?cs" unfolding eq by simp
  qed
  from no_row indep flat [of L] complete show ?thesis by blast
qed

theorem ward_non_euclidean_skipped_witness:
  "linkage toy_library [3, 4] ''ward'' ''cosine'' = Inl ''ValueError''
   \<and> fst (comparative_study toy_library [3, 4]) = None
   \<and> (''ward'', ''cosine'') \<notin> set (map config (snd (comparative_study toy_library [3, 4])))
   \<and> (''ward'', ''euclidean'') \<in> set (map config (snd (comparative_study toy_library [3, 4])))
   \<and> length (snd (comparative_study toy_library [3, 4])) = 10"
proof -
  let ?X = "[3, 4] :: int list"
  let ?exc = "fst (comparative_study toy_library ?X)"
  let ?rows = "snd (comparative_study toy_library ?X)"
  have metric: "''cosine'' \<noteq> ''euclidean''" by simp
  have run: "outer_loop toy_library ?X linkage_methods distance_metrics [] = (?exc, ?rows)"
    by (simp add: comparative_study_def)
  have ok: "\<forall>c \<in> set (grid linkage_methods distance_metrics).
              \<not> skipped c \<longrightarrow> (\<forall>e. evaluate toy_library ?X (fst c) (snd c) \<noteq> Inl e)"
    by (simp add: grid_def skipped_def linkage_methods_def distance_metrics_def
          evaluate_def toy_library_def)
  have pairs: "filter (\<lambda>c. \<not> skipped c) (grid linkage_methods distance_metrics) =
       [(''single'', ''euclidean''), (''single'', ''cityblock''), (''single'', ''cosine''),
        (''complete'', ''euclidean''), (''complete'', ''cityblock''), (''complete'', ''cosine''),
        (''average'', ''euclidean''), (''average'', ''cityblock''), (''average'', ''cosine''),
        (''ward'', ''euclidean'')]"
    by (simp add: grid_def skipped_def linkage_methods_def distance_metrics_def)
  from ward_non_euclidean_skipped [OF refl metric run] ok
  have "(''ward'', ''cosine'') \<notin> set (map config ?rows)"
    and "?exc = None \<and> map config ?rows =
           filter (\<lambda>c. \<not> skipped c) (grid linkage_methods distance_metrics)"
    by blast+
  then have concl: "(''ward'', ''cosine'') \<notin> set (map config ?rows)" "?exc = None"
    "map config ?rows =
       [(''single'', ''euclidean''), (''single'', ''cityblock''), (''single'', ''cosine''),
        (''complete'', ''euclidean''), (''complete'', ''cityblock''), (''complete'', ''cosine''),
        (''average'', ''euclidean''), (''average'', ''cityblock''), (''average'', ''cosine''),
        (''ward'', ''euclidean'')]"
    using pairs by simp_all
  have len: "length ?rows = 10"
    using arg_cong [OF concl(3), of length] by simp
  have lib: "linkage toy_library ?X ''ward'' ''cosine'' = Inl ''ValueError''"
    by (simp add: toy_library_def)
  from concl(1,2) len lib show ?thesis
    by (simp add: concl(3))
qed

text \<open>
  Claim C6, as the cell behaves. The cell has no \<open>try\<close>: a failure is not isolated.
  When the configuration at position \<open>i\<close> of the non-skipped pairs raises \<open>e\<close> and
  none before it raises, the exception leaves both loops and ends the whole run with
  \<open>e\<close>; \<open>results\<close> then holds the rows of the \<open>i\<close> configurations before it, in
  iteration order, and no row of a later configuration.
\<close>

theorem first_exception_ends_study:
  assumes "i < length (evaluated_pairs methods metrics)"
    and "evaluate L X (fst (evaluated_pairs methods metrics ! i))
           (snd (evaluated_pairs methods metrics ! i)) = Inl e"
    and "\<forall>j < i. \<forall>e'. evaluate L X (fst (evaluated_pairs methods metrics ! j))
           (snd (evaluated_pairs methods metrics ! j)) \<noteq> Inl e'"
  shows "fst (outer_loop L X methods metrics []) = Some e
       \<and> map config (snd (outer_loop L X methods metrics [])) =
           take i (evaluated_pairs methods metrics)"
proof -
  from run_pairs_first_exception [OF assms, of "[]"] obtain new where
    "run_pairs L X (evaluated_pairs methods metrics) [] = (Some e, [] @ new)"
    "map config new = take i (evaluated_pairs methods metrics)"
    by blast
  then show ?thesis by (simp add: outer_loop_run_pairs)
qed

theorem first_exception_ends_study_witness:
  "fst (comparative_study zero_vector_library [0, 1, 2, 10, 11, 12]) = Some ''ValueError''
   \<and> map config (snd (comparative_study zero_vector_library [0, 1, 2, 10, 11, 12])) =
       [(''single'', ''euclidean''), (''single'', ''cityblock'')]"
proof -
  let ?X = "[0, 1, 2, 10, 11, 12] :: int list"
  have pairs: "evaluated_pairs linkage_methods distance_metrics =
       [(''single'', ''euclidean''), (''single'', ''cityblock''), (''single'', ''cosine''),
        (''complete'', ''euclidean''), (''complete'', ''cityblock''), (''complete'', ''cosine''),
        (''average'', ''euclidean''), (''average'', ''cityblock''), (''average'', ''cosine''),
        (''ward'', ''euclidean'')]"
    by (simp add: evaluated_pairs_def grid_def skipped_def linkage_methods_def
          distance_metrics_def)
  have i: "2 < length (evaluated_pairs linkage_methods distance_metrics)"
    by (simp add: pairs)
  have raises: "evaluate zero_vector_library ?X
                  (fst (evaluated_pairs linkage_methods distance_metrics ! 2))
                  (snd (evaluated_pairs linkage_methods distance_metrics ! 2)) = Inl ''ValueError''"
    by (simp add: pairs evaluate_def zero_vector_library_def)
  have before: "\<forall>j < 2. \<forall>e'. evaluate zero_vector_library ?X
                  (fst (evaluated_pairs linkage_methods distance_metrics ! j))
                  (snd (evaluated_pairs linkage_methods distance_metrics ! j)) \<noteq> Inl e'"
    by (simp add: pairs evaluate_def zero_vector_library_def less_Suc_eq numeral_2_eq_2)
  from first_exception_ends_study [OF i raises before] show ?thesis
    by (simp add: comparative_study_def pairs)
qed

text \<open>
  The claim of isolation itself fails on the notebook's grid. With a library whose
  \<open>linkage\<close> raises under the cosine metric on a feature matrix with a zero observation,
  the configuration (single, cosine) raises; (complete, euclidean), which comes later and
  evaluates without error on its own, gets no row, and the run ends with the exception
  after two rows.
\<close>

theorem failure_isolation_counterexample:
  "evaluate zero_vector_library [0, 1, 2, 10, 11, 12] ''single'' ''cosine'' = Inl ''ValueError''
   \<and> evaluate zero_vector_library [0, 1, 2, 10, 11, 12] ''complete'' ''euclidean'' =
       Inr (''complete'', ''euclidean'', ''euclidean'', (''complete'', ''euclidean''), 5)
   \<and> comparative_study zero_vector_library [0, 1, 2, 10, 11, 12] =
       (Some ''ValueError'',
        [(''single'', ''euclidean'', ''euclidean'', (''single'', ''euclidean''), 5),
         (''single'', ''cityblock'', ''cityblock'', (''single'', ''cityblock''), 5)])
   \<and> (''complete'', ''euclidean'') \<notin>
       set (map config (snd (comparative_study zero_vector_library [0, 1, 2, 10, 11, 12])))"
  by (simp add: comparative_study_def linkage_methods_def distance_metrics_def
        evaluate_def zero_vector_library_def config_def)

end
